theory Spec2Isabelle
  imports Complex_Main
begin

section \<open>JavaScript numbers\<close>

text \<open>
  Scribl computes with JavaScript numbers. They are idealised here as the real numbers
  extended by the three special values of IEEE arithmetic, so that a division by zero
  or an \<^verbatim>\<open>undefined\<close> scale bound is a value of the model and not an accident of
  HOL's total division. Rounding of finite results is not modelled, and zero is read
  as \<^verbatim>\<open>+0\<close>.
\<close>

datatype jsnum = Fin real | PInf | NInf | NaN

fun js_neg :: "jsnum \<Rightarrow> jsnum" where
  "js_neg (Fin a) = Fin (- a)"
| "js_neg PInf = NInf"
| "js_neg NInf = PInf"
| "js_neg NaN = NaN"

fun js_add :: "jsnum \<Rightarrow> jsnum \<Rightarrow> jsnum" where
  "js_add (Fin a) (Fin b) = Fin (a + b)"
| "js_add NaN _ = NaN"
| "js_add _ NaN = NaN"
| "js_add PInf NInf = NaN"
| "js_add NInf PInf = NaN"
| "js_add PInf _ = PInf"
| "js_add _ PInf = PInf"
| "js_add NInf _ = NInf"
| "js_add _ NInf = NInf"

definition js_sub :: "jsnum \<Rightarrow> jsnum \<Rightarrow> jsnum" where
  "js_sub a b = js_add a (js_neg b)"

fun js_mul :: "jsnum \<Rightarrow> jsnum \<Rightarrow> jsnum" where
  "js_mul (Fin a) (Fin b) = Fin (a * b)"
| "js_mul NaN _ = NaN"
| "js_mul _ NaN = NaN"
| "js_mul (Fin a) y = (if a = 0 then NaN else if 0 < a then y else js_neg y)"
| "js_mul x (Fin b) = (if b = 0 then NaN else if 0 < b then x else js_neg x)"
| "js_mul PInf y = y"
| "js_mul NInf y = js_neg y"

fun js_div :: "jsnum \<Rightarrow> jsnum \<Rightarrow> jsnum" where
  "js_div (Fin a) (Fin b) =
     (if b \<noteq> 0 then Fin (a / b)
      else if a = 0 then NaN else if 0 < a then PInf else NInf)"
| "js_div NaN _ = NaN"
| "js_div _ NaN = NaN"
| "js_div (Fin a) _ = Fin 0"
| "js_div PInf (Fin b) = (if 0 \<le> b then PInf else NInf)"
| "js_div NInf (Fin b) = (if 0 \<le> b then NInf else PInf)"
| "js_div _ _ = NaN"

text \<open>The comparison \<^verbatim>\<open>a > b\<close>: false as soon as one side is NaN.\<close>

fun js_gt :: "jsnum \<Rightarrow> jsnum \<Rightarrow> bool" where
  "js_gt (Fin a) (Fin b) = (b < a)"
| "js_gt NaN _ = False"
| "js_gt _ NaN = False"
| "js_gt PInf PInf = False"
| "js_gt PInf _ = True"
| "js_gt _ PInf = False"
| "js_gt NInf _ = False"
| "js_gt _ NInf = True"

text \<open>
  The remainder \<^verbatim>\<open>a % b\<close> takes the sign of the dividend: the quotient is
  truncated towards zero.
\<close>

definition js_trunc :: "real \<Rightarrow> int" where
  "js_trunc x = (if 0 \<le> x then \<lfloor>x\<rfloor> else \<lceil>x\<rceil>)"

fun js_mod :: "jsnum \<Rightarrow> jsnum \<Rightarrow> jsnum" where
  "js_mod (Fin a) (Fin b) =
     (if b = 0 then NaN else Fin (a - b * of_int (js_trunc (a / b))))"
| "js_mod NaN _ = NaN"
| "js_mod _ NaN = NaN"
| "js_mod (Fin a) _ = Fin a"
| "js_mod _ _ = NaN"

text \<open>\<^verbatim>\<open>Math.round\<close> rounds to the nearest integer, a half upwards.\<close>

fun js_round :: "jsnum \<Rightarrow> jsnum" where
  "js_round (Fin a) = Fin (of_int \<lfloor>a + 1 / 2\<rfloor>)"
| "js_round x = x"

section \<open>The data model: glyphs, lanes, tracks and the chart\<close>

text \<open>
  A feature is a \<^verbatim>\<open>Glyph\<close> (\<^verbatim>\<open>Glyph.init\<close>): its unique id, position, length,
  strand, type tag and name. The fields that only steer the drawing (colours, fonts,
  event handlers) are left out.
\<close>

record glyph =
  uid :: nat
  position :: real
  length_g :: real
  strand :: string
  type_g :: string
  name :: string

definition getEnd :: "glyph \<Rightarrow> real" where
  "getEnd g = position g + length_g g"

record lane =
  features :: "glyph list"

record track =
  lanes :: "lane list"
  trackDrawStyle :: "string option"

text \<open>
  The chart (\<^verbatim>\<open>Scribl.init\<close>), with the nested \<^verbatim>\<open>scale\<close> and \<^verbatim>\<open>tick\<close>
  objects flattened. A scale bound that is still \<^verbatim>\<open>undefined\<close> is NaN: that is
  what every arithmetic use of it yields.
\<close>

record chart =
  width :: real
  laneSizes :: real
  laneBuffer :: real
  trackBuffer :: real
  scale_pretty :: bool
  scale_min :: jsnum
  scale_max :: jsnum
  scale_auto :: bool
  scale_off :: bool
  scale_size :: real
  scale_font_size :: real
  scale_font_buffer :: real
  tick_auto :: bool
  tick_major_size :: jsnum
  tick_minor_size :: jsnum
  drawStyle :: string
  tracks :: "track list"

definition Scribl_init :: "real \<Rightarrow> chart" where
  "Scribl_init w =
     \<lparr> width = w, laneSizes = 50, laneBuffer = 5, trackBuffer = 25,
       scale_pretty = True, scale_min = NaN, scale_max = NaN, scale_auto = True,
       scale_off = False, scale_size = 15, scale_font_size = 15, scale_font_buffer = 10,
       tick_auto = True, tick_major_size = Fin 10, tick_minor_size = Fin 1,
       drawStyle = ''expand'', tracks = [] \<rparr>"

definition Track_init :: track where
  "Track_init = \<lparr> lanes = [], trackDrawStyle = None \<rparr>"

section \<open>The scale\<close>

text \<open>
  \<^verbatim>\<open>pixelsToNts\<close> without an argument is the ratio of pixels to nucleotides; with
  an argument it scales the argument by that ratio.
\<close>

definition pixelsToNts0 :: "chart \<Rightarrow> jsnum" where
  "pixelsToNts0 ch = js_div (Fin (width ch)) (js_sub (scale_max ch) (scale_min ch))"

definition pixelsToNts :: "chart \<Rightarrow> jsnum \<Rightarrow> jsnum" where
  "pixelsToNts ch pixels =
     js_mul (js_div (Fin (width ch)) (js_sub (scale_max ch) (scale_min ch))) pixels"

definition ntsToPixels0 :: "chart \<Rightarrow> jsnum" where
  "ntsToPixels0 ch = js_div (Fin 1) (pixelsToNts0 ch)"

definition ntsToPixels :: "chart \<Rightarrow> jsnum \<Rightarrow> jsnum" where
  "ntsToPixels ch nts = js_div nts (Fin (width ch))"

section \<open>Lanes and the lane allocator\<close>

text \<open>
  Modelled from the spec: the \<^verbatim>\<open>Lane\<close> class is not among the sources. The spec
  describes a lane as an insertion-ordered sequence of features; a new lane is empty
  and \<^verbatim>\<open>Lane.addFeature\<close> appends the feature and hands it back.
\<close>

definition Lane_init :: lane where
  "Lane_init = \<lparr> features = [] \<rparr>"

definition Lane_addFeature :: "lane \<Rightarrow> glyph \<Rightarrow> glyph \<times> lane" where
  "Lane_addFeature l f = (f, l\<lparr> features := features l @ [f] \<rparr>)"

text \<open>\<^verbatim>\<open>Track.addLane\<close> pushes a new lane and returns its index.\<close>

definition addLane :: "track \<Rightarrow> nat \<times> track" where
  "addLane t = (length (lanes t), t\<lparr> lanes := lanes t @ [Lane_init] \<rparr>)"


definition lane_accepts :: "chart \<Rightarrow> glyph \<Rightarrow> lane \<Rightarrow> bool" where
  "lane_accepts ch feature l =
     (case features l of
        [] \<Rightarrow> False
      | _ \<Rightarrow>
          (let prev_feature = last (features l)
           in js_gt (js_sub (Fin (position feature)) (js_div (Fin 3) (pixelsToNts0 ch)))
                    (Fin (position prev_feature + length_g prev_feature))))"

text \<open>The loop over the lanes: the index of the first lane that accepts, if any.\<close>

fun find_lane :: "chart \<Rightarrow> glyph \<Rightarrow> lane list \<Rightarrow> nat \<Rightarrow> nat option" where
  "find_lane ch feature [] j = None"
| "find_lane ch feature (l # ls) j =
     (if lane_accepts ch feature l then Some j else find_lane ch feature ls (Suc j))"

definition Track_addFeature :: "chart \<Rightarrow> track \<Rightarrow> glyph \<Rightarrow> glyph \<times> track" where
  "Track_addFeature ch t feature =
     (case find_lane ch feature (lanes t) 0 of
        Some j \<Rightarrow>
          (feature,
           t\<lparr> lanes := (lanes t)[j := snd (Lane_addFeature (lanes t ! j) feature)] \<rparr>)
      | None \<Rightarrow>
          (let (j, t') = addLane t
           in (feature,
               t'\<lparr> lanes := (lanes t')[j := snd (Lane_addFeature (lanes t' ! j) feature)] \<rparr>)))"

text \<open>A sequence of features added to a track of the chart, one after the other.\<close>

fun addFeatures :: "chart \<Rightarrow> track \<Rightarrow> glyph list \<Rightarrow> track" where
  "addFeatures ch t [] = t"
| "addFeatures ch t (f # fs) = addFeatures ch (snd (Track_addFeature ch t f)) fs"

section \<open>Adding tracks and features to the chart\<close>

text \<open>
  \<^verbatim>\<open>Scribl.addTrack\<close> pushes a new track and returns it; the model returns its
  index in \<^verbatim>\<open>tracks\<close>. The source first resets \<^verbatim>\<open>tracks\<close> when it is the
  one-element array holding \<^verbatim>\<open>undefined\<close>; a list of tracks has no such element.
\<close>

definition addTrack :: "chart \<Rightarrow> nat \<times> chart" where
  "addTrack ch = (length (tracks ch), ch\<lparr> tracks := tracks ch @ [Track_init] \<rparr>)"

text \<open>
  \<^verbatim>\<open>Scribl.addFeature\<close>: the track is \<^verbatim>\<open>this.tracks[0] || this.addTrack()\<close>, the
  feature goes through \<^verbatim>\<open>Track.addFeature\<close> of that track, and is returned.
\<close>

definition Scribl_addFeature :: "chart \<Rightarrow> glyph \<Rightarrow> glyph \<times> chart" where
  "Scribl_addFeature ch feature =
     (let (j, ch1) = (if tracks ch \<noteq> [] then (0, ch) else addTrack ch);
          (f, t') = Track_addFeature ch1 (tracks ch1 ! j) feature
      in (feature, ch1\<lparr> tracks := (tracks ch1)[j := t'] \<rparr>))"

fun loadFeatures :: "chart \<Rightarrow> glyph list \<Rightarrow> chart" where
  "loadFeatures ch [] = ch"
| "loadFeatures ch (f # fs) = loadFeatures (snd (Scribl_addFeature ch f)) fs"

section \<open>Slicing\<close>

datatype js_error = ReferenceError | SyntaxError

text \<open>
  \<^verbatim>\<open>Glyph.clone\<close> does not read \<^verbatim>\<open>this\<close>: it reads a variable \<^verbatim>\<open>f\<close> that is
  not bound in its scope (the \<^verbatim>\<open>var f\<close> of \<^verbatim>\<open>slice\<close> is local to
  \<^verbatim>\<open>slice\<close>), so \<^verbatim>\<open>f\<close> is looked up among the globals. The argument
  \<open>global_f\<close> is that global binding; the sources define none, and then the test
  \<^verbatim>\<open>f.orientation\<close> raises a ReferenceError. With a glyph bound to \<^verbatim>\<open>f\<close> the
  text handed to \<^verbatim>\<open>eval\<close> is \<^verbatim>\<open>new\<close>, the glyph type, an opening parenthesis
  and the fields, as in \<^verbatim>\<open>newRect(gene,50,200\<close>. For a glyph type and a type tag
  that are plain words, as the glyph classes set them, the parenthesis is never
  closed and \<^verbatim>\<open>eval\<close> raises a SyntaxError; that is the outcome of the model for
  every bound \<^verbatim>\<open>f\<close>, although other field values can make \<^verbatim>\<open>eval\<close> do
  something else. The theorems use the unbound \<^verbatim>\<open>f\<close> of the sources only.
\<close>

definition clone :: "glyph option \<Rightarrow> glyph \<Rightarrow> js_error + glyph" where
  "clone global_f this =
     (case global_f of None \<Rightarrow> Inl ReferenceError | Some f \<Rightarrow> Inl SyntaxError)"

text \<open>The body of the innermost loop of \<^verbatim>\<open>Scribl.slice\<close>, for one feature.\<close>

definition slice_feature ::
  "glyph option \<Rightarrow> string \<Rightarrow> real \<Rightarrow> real \<Rightarrow> lane \<Rightarrow> glyph \<Rightarrow> js_error + lane" where
  "slice_feature global_f type from to newLane g =
     (let end = position g + length_g g;
          start = position g
      in if type = ''inclusive'' then
           (if from \<le> start \<and> start \<le> to then Inr (snd (Lane_addFeature newLane g))
            else if from < end \<and> end < to then Inr (snd (Lane_addFeature newLane g))
            else if start < from \<and> to < end then Inr (snd (Lane_addFeature newLane g))
            else if from < start \<and> end < to then Inr (snd (Lane_addFeature newLane g))
            else Inr newLane)
         else if type = ''strict'' then
           (if from \<le> start \<and> start \<le> to then
              (if from < end \<and> end < to then Inr (snd (Lane_addFeature newLane g))
               else
                 (case clone global_f g of
                    Inl err \<Rightarrow> Inl err
                  | Inr f \<Rightarrow>
                      Inr (snd (Lane_addFeature newLane (f\<lparr> length_g := \<bar>to - start\<bar> \<rparr>)))))
            else if from < end \<and> end < to then
              (case clone global_f g of
                 Inl err \<Rightarrow> Inl err
               | Inr f \<Rightarrow>
                   Inr (snd (Lane_addFeature newLane
                              (f\<lparr> position := from, length_g := \<bar>end - from\<bar> \<rparr>))))
            else if start < from \<and> to < end then
              (case clone global_f g of
                 Inl err \<Rightarrow> Inl err
               | Inr f \<Rightarrow>
                   Inr (snd (Lane_addFeature newLane
                              (f\<lparr> position := from, length_g := \<bar>to - from\<bar> \<rparr>))))
            else Inr newLane)
         else if type = ''exclusive'' then
           (if from \<le> start \<and> start \<le> to \<and> from < end \<and> end < to
            then Inr (snd (Lane_addFeature newLane g))
            else Inr newLane)
         else Inr newLane)"

text \<open>
  The three nested loops: over the features of a lane, the lanes of a track, and the
  tracks of the chart. An exception leaves all of them at once.
\<close>

fun slice_features ::
  "glyph option \<Rightarrow> string \<Rightarrow> real \<Rightarrow> real \<Rightarrow> lane \<Rightarrow> glyph list \<Rightarrow> js_error + lane" where
  "slice_features global_f type from to newLane [] = Inr newLane"
| "slice_features global_f type from to newLane (g # gs) =
     (case slice_feature global_f type from to newLane g of
        Inl err \<Rightarrow> Inl err
      | Inr newLane' \<Rightarrow> slice_features global_f type from to newLane' gs)"

fun slice_lanes ::
  "glyph option \<Rightarrow> string \<Rightarrow> real \<Rightarrow> real \<Rightarrow> track \<Rightarrow> lane list \<Rightarrow> js_error + track" where
  "slice_lanes global_f type from to newTrack [] = Inr newTrack"
| "slice_lanes global_f type from to newTrack (l # ls) =
     (let (i, newTrack1) = addLane newTrack
      in case slice_features global_f type from to (lanes newTrack1 ! i) (features l) of
           Inl err \<Rightarrow> Inl err
         | Inr newLane \<Rightarrow>
             slice_lanes global_f type from to
               (newTrack1\<lparr> lanes := (lanes newTrack1)[i := newLane] \<rparr>) ls)"

fun slice_tracks ::
  "glyph option \<Rightarrow> string \<Rightarrow> real \<Rightarrow> real \<Rightarrow> chart \<Rightarrow> track list \<Rightarrow> js_error + chart" where
  "slice_tracks global_f type from to newChart [] = Inr newChart"
| "slice_tracks global_f type from to newChart (t # ts) =
     (let (j, newChart1) = addTrack newChart;
          newTrack = (tracks newChart1 ! j)\<lparr> trackDrawStyle := trackDrawStyle t \<rparr>
      in case slice_lanes global_f type from to newTrack (lanes t) of
           Inl err \<Rightarrow> Inl err
         | Inr newTrack' \<Rightarrow>
             slice_tracks global_f type from to
               (newChart1\<lparr> tracks := (tracks newChart1)[j := newTrack'] \<rparr>) ts)"

text \<open>
  \<^verbatim>\<open>Scribl.slice(from, to, type)\<close>. A missing or empty \<^verbatim>\<open>type\<close> is
  \<^verbatim>\<open>'inclusive'\<close>. The array \<^verbatim>\<open>sliced_features\<close> is never filled.
\<close>

definition slice ::
  "glyph option \<Rightarrow> chart \<Rightarrow> real \<Rightarrow> real \<Rightarrow> string option \<Rightarrow> js_error + chart" where
  "slice global_f this from to type =
     (let type' = (case type of None \<Rightarrow> ''inclusive''
                   | Some s \<Rightarrow> if s = [] then ''inclusive'' else s);
          sliced_features = [];
          newChart = Scribl_init (width this)
      in case slice_tracks global_f type' from to newChart (tracks this) of
           Inl err \<Rightarrow> Inl err
         | Inr newChart' \<Rightarrow>
             Inr (loadFeatures
                    (newChart'\<lparr> laneSizes := laneSizes this, drawStyle := drawStyle this \<rparr>)
                    sliced_features))"

text \<open>The features of a chart, grouped by track and lane.\<close>

definition layout :: "chart \<Rightarrow> glyph list list list" where
  "layout ch = map (\<lambda>t. map features (lanes t)) (tracks ch)"

section \<open>Tick labels\<close>

text \<open>
  A number as JavaScript prints it, for the values the tick code prints: a natural
  number below \<open>10^21\<close> is its decimal digits, and \<open>k / 10^d\<close> is its integer part
  followed, unless it is an integer, by a point and its \<open>d\<close> decimals without the
  trailing zeros (the shortest decimal that reads back as the same number).
\<close>

definition digit_char :: "nat \<Rightarrow> char" where
  "digit_char d = ''0123456789'' ! d"

fun show_nat :: "nat \<Rightarrow> string" where
  "show_nat n = (if n < 10 then [digit_char n] else show_nat (n div 10) @ [digit_char (n mod 10)])"

declare show_nat.simps [simp del]


text \<open>
  \<^verbatim>\<open>Math.round\<close> of a real, as an integer. The formatters below divide and
  multiply in exact arithmetic, where the code computes in binary floating point. For
  an integer tick value below \<open>10^15\<close> the code hands \<^verbatim>\<open>Math.round\<close> a number that
  rounds to the same integer: always in the width estimate, where the divisor is 10,
  and in the display formatter unless the value ends in the digit 5; there
  \<^verbatim>\<open>n / 1000 * 100\<close> lies at a rounding boundary and the binary result decides (the
  code displays 1005 as \<^verbatim>\<open>1k\<close>). The theorems on the formatters keep to these values.
\<close>

definition Math_round :: "real \<Rightarrow> int" where
  "Math_round x = \<lfloor>x + 1 / 2\<rfloor>"

text \<open>
  Both formatters return the number itself when it is below 1000 or the ticks are not
  automatic, and a string otherwise.
\<close>

datatype ticktext = TNum real | TStr string


definition getTickTextDecimalPlaces :: "chart \<Rightarrow> real \<Rightarrow> ticktext" where
  "getTickTextDecimalPlaces ch tickNumber =
     (if \<not> tick_auto ch then TNum tickNumber
      else if 1000000 \<le> tickNumber then
        (let decPlaces = 5
         in TStr (show_nat (nat (Math_round (tickNumber / (1000000 / 10 ^ decPlaces)))) @ ''m''))
      else if 1000 \<le> tickNumber then
        (let decPlaces = 2
         in TStr (show_nat (nat (Math_round (tickNumber / (1000 / 10 ^ decPlaces)))) @ ''k''))
      else TNum tickNumber)"

section \<open>The major tick\<close>

text \<open>
  The two places where \<^verbatim>\<open>determineMajorTick\<close> counts the characters of a number:
  \<^verbatim>\<open>parseInt(x).toString().length\<close> and \<^verbatim>\<open>(x + '').length\<close> for an integer
  \<open>x\<close>. Both are the number of decimal digits for \<open>0 \<le> x < 10^21\<close>; elsewhere
  JavaScript prints a sign or an exponent, which is not modelled (\<open>None\<close>).
\<close>

definition parseInt_length :: "real \<Rightarrow> nat option" where
  "parseInt_length x =
     (if 0 \<le> x \<and> x < 10 ^ 21 then Some (length (show_nat (nat \<lfloor>x\<rfloor>))) else None)"

definition string_length :: "real \<Rightarrow> nat option" where
  "string_length x =
     (if 0 \<le> x \<and> x < 10 ^ 21 \<and> of_int \<lfloor>x\<rfloor> = x
      then Some (length (show_nat (nat \<lfloor>x\<rfloor>))) else None)"

text \<open>
  \<^verbatim>\<open>determineMajorTick\<close>. The width of a label comes from the drawing context:
  \<open>measureText\<close> is \<^verbatim>\<open>ctx.measureText(...).width\<close> at the scale's font. The result
  is the returned interval and the chart, whose \<^verbatim>\<open>tick.major.size\<close> the function
  sets on its way. \<open>None\<close>: a scale bound or the raw interval is not a finite number,
  or a number is printed with a sign or an exponent. (With a label width plus buffer
  of 0 the number of labels is infinite and the raw interval is 0.)
\<close>

definition determineMajorTick :: "(ticktext \<Rightarrow> real) \<Rightarrow> chart \<Rightarrow> (real \<times> chart) option" where
  "determineMajorTick measureText ch =
     (case (scale_min ch, scale_max ch) of
        (Fin mn, Fin mx) \<Rightarrow>
          (let numtimes =
                 js_div (Fin (width ch))
                   (Fin (measureText (getTickTextDecimalPlaces ch mx) + scale_font_buffer ch))
           in case js_div (Fin (mx - mn)) numtimes of
                Fin irregularTick \<Rightarrow>
                  (case parseInt_length irregularTick of
                     None \<Rightarrow> None
                   | Some len \<Rightarrow>
                       (let baseNum = 10 ^ (len - 1);
                            size = of_int \<lceil>irregularTick / baseNum\<rceil> * baseNum
                        in case string_length size of
                             None \<Rightarrow> None
                           | Some digits \<Rightarrow>
                               (let places = 10 ^ digits;
                                    first_digit = size / places;
                                    first_digit' =
                                      (if 1 / 10 < first_digit \<and> first_digit \<le> 1 / 2 then 1 / 2
                                       else if 1 / 2 < first_digit then 1
                                       else first_digit)
                                in Some (first_digit' * places,
                                         ch\<lparr> tick_major_size := Fin size \<rparr>))))
              | _ \<Rightarrow> None)
      | _ \<Rightarrow> None)"

section \<open>Making the scale end on major ticks\<close>

text \<open>
  The part of \<^verbatim>\<open>Scribl.draw\<close> under \<^verbatim>\<open>if (this.scale.auto)\<close>: the minimum loses
  its remainder modulo the major tick size, and the maximum becomes
  \<^verbatim>\<open>Math.round(max / size + .4) * size\<close>.
\<close>

definition prettifyDomain :: "chart \<Rightarrow> chart" where
  "prettifyDomain ch =
     (if scale_auto ch then
        ch\<lparr> scale_min := js_sub (scale_min ch) (js_mod (scale_min ch) (tick_major_size ch)),
            scale_max :=
              js_mul (js_round (js_add (js_div (scale_max ch) (tick_major_size ch)) (Fin (4 / 10))))
                     (tick_major_size ch) \<rparr>
      else ch)"

text \<open>
  The scale part of \<^verbatim>\<open>Scribl.draw\<close>: with a pretty scale, automatic ticks are
  computed first, then the domain is widened.
\<close>

definition draw_scale :: "(ticktext \<Rightarrow> real) \<Rightarrow> chart \<Rightarrow> chart option" where
  "draw_scale measureText ch =
     (if scale_pretty ch then
        (if tick_auto ch then
           (case determineMajorTick measureText ch of
              None \<Rightarrow> None
            | Some (major, ch1) \<Rightarrow>
                Some (prettifyDomain
                        (ch1\<lparr> tick_major_size := Fin major,
                              tick_minor_size := js_round (js_div (Fin major) (Fin 10)) \<rparr>)))
         else Some (prettifyDomain ch))
      else Some ch)"

section \<open>The collapse pass\<close>

text \<open>
  The \<^verbatim>\<open>collapse\<close> branch of \<^verbatim>\<open>Track.draw\<close>. The inner loop runs \<open>m\<close> from
  \<open>j + 1\<close> and, while feature \<open>j\<close> reaches feature \<open>m\<close>, stretches feature \<open>j\<close> and
  blanks its name; it returns the array and the \<open>m\<close> at which it stopped. The array
  \<^verbatim>\<open>features\<close> of the source is \<open>feats\<close> here.
\<close>

function collapse_inner :: "glyph list \<Rightarrow> nat \<Rightarrow> nat \<Rightarrow> glyph list \<times> nat" where
  "collapse_inner feats j m =
     (if m < length feats then
        (if position (feats ! m) \<le> getEnd (feats ! j) then
           collapse_inner
             (feats[j := (feats ! j)
                \<lparr> length_g := max (getEnd (feats ! j)) (getEnd (feats ! m))
                                - position (feats ! j),
                  name := [] \<rparr>])
             j (Suc m)
         else (feats, m))
      else (feats, m))"
  by pat_completeness auto
termination
  by (relation "measure (\<lambda>(feats, j, m). length feats - m)") auto

declare collapse_inner.simps [simp del]

lemma collapse_inner_bounds:
  "collapse_inner fs j m = (fs', m') \<Longrightarrow> m \<le> m' \<and> length fs' = length fs"
proof (induction fs j m arbitrary: fs' m' rule: collapse_inner.induct)
  case (1 feats j m)
  show ?case
  proof (cases "m < length feats \<and> position (feats ! m) \<le> getEnd (feats ! j)")
    case True
    with "1.prems" "1.IH"[of fs' m'] show ?thesis
      by (simp add: collapse_inner.simps[of feats j m])
  next
    case False
    with "1.prems" show ?thesis
      by (auto simp: collapse_inner.simps[of feats j m] split: if_splits)
  qed
qed

text \<open>
  The outer loop: feature \<open>j\<close> is drawn as the inner loop left it, its length and name
  are put back, and the loop goes on at the \<open>m\<close> where the inner loop stopped. What
  the drawing receives is recorded in \<open>drawn\<close>: the drawing itself is the canvas's.
\<close>

function collapse_outer :: "glyph list \<Rightarrow> nat \<Rightarrow> glyph list \<Rightarrow> glyph list \<times> glyph list" where
  "collapse_outer feats j drawn =
     (if j < length feats then
        (let originalLength = length_g (feats ! j);
             originalName = name (feats ! j);
             (feats1, m) = collapse_inner feats j (Suc j);
             drawn1 = drawn @ [feats1 ! j];
             feats2 = feats1[j := (feats1 ! j)
                           \<lparr> length_g := originalLength, name := originalName \<rparr>]
         in collapse_outer feats2 m drawn1)
      else (feats, drawn))"
  by pat_completeness auto
termination collapse_outer
proof (relation "measure (\<lambda>(feats, j, drawn). length feats - j)")
  show "wf (measure (\<lambda>(feats, j, drawn). length feats - j))" by simp
next
  fix feats :: "glyph list" and j :: nat and drawn :: "glyph list"
    and originalLength originalName x feats1 m drawn1 feats2
  assume j: "j < length feats"
    and x: "x = collapse_inner feats j (Suc j)" and s: "(feats1, m) = x"
    and f2: "feats2 = feats1[j := (feats1 ! j)
                           \<lparr> length_g := originalLength, name := originalName \<rparr>]"
  from x s have "collapse_inner feats j (Suc j) = (feats1, m)" by simp
  from collapse_inner_bounds[OF this] have "Suc j \<le> m" "length feats1 = length feats"
    by simp_all
  with j f2 show "((feats2, m, drawn1), (feats, j, drawn))
      \<in> measure (\<lambda>(feats, j, drawn). length feats - j)"
    by simp
qed

declare collapse_outer.simps [simp del]

text \<open>
  The whole branch: the features of all lanes, sorted by position, go through the
  pass. The result is the array after the pass and the glyphs as they were drawn.
  The \<^verbatim>\<open>ctx.translate\<close> that ends the branch belongs to the drawing and is left
  out; it reads \<^verbatim>\<open>lanes[0]\<close>, so on a track without lanes, where the pass has
  nothing to draw, the code ends in a TypeError.
\<close>

definition draw_collapse :: "track \<Rightarrow> glyph list \<times> glyph list" where
  "draw_collapse t = collapse_outer (sort_key position (concat (map features (lanes t)))) 0 []"

text \<open>
  The collapse pass in the words of the spec: a run \<open>[runStart, runEnd)\<close> with a label;
  a feature that starts at or before \<open>runEnd\<close> extends the run to
  \<open>max runEnd (end of the feature)\<close> and blanks the label, a feature that starts after
  \<open>runEnd\<close> closes the run and starts a new one.
\<close>

record run =
  runStart :: real
  runEnd :: real
  label :: string

definition run_of :: "glyph \<Rightarrow> run" where
  "run_of g = \<lparr> runStart = position g, runEnd = getEnd g, label = name g \<rparr>"

fun merge_runs :: "run \<Rightarrow> glyph list \<Rightarrow> run list" where
  "merge_runs r [] = [r]"
| "merge_runs r (g # gs) =
     (if position g \<le> runEnd r
      then merge_runs (r\<lparr> runEnd := max (runEnd r) (getEnd g), label := [] \<rparr>) gs
      else r # merge_runs (run_of g) gs)"

fun collapse_runs :: "glyph list \<Rightarrow> run list" where
  "collapse_runs [] = []"
| "collapse_runs (g # gs) = merge_runs (run_of g) gs"

section \<open>Predicates and auxiliary functions of the proofs\<close>



text \<open>
  The tests of the inclusive and the exclusive mode of \<^verbatim>\<open>slice\<close> as predicates on
  a feature, and the features of a track.
\<close>

definition keeps_inclusive :: "real \<Rightarrow> real \<Rightarrow> glyph \<Rightarrow> bool" where
  "keeps_inclusive from to g =
     (from \<le> position g \<and> position g \<le> to \<or> from < getEnd g \<and> getEnd g < to \<or>
      position g < from \<and> to < getEnd g \<or> from < position g \<and> getEnd g < to)"

definition keeps_exclusive :: "real \<Rightarrow> real \<Rightarrow> glyph \<Rightarrow> bool" where
  "keeps_exclusive from to g =
     (from \<le> position g \<and> position g \<le> to \<and> from < getEnd g \<and> getEnd g < to)"

definition track_features :: "track \<Rightarrow> glyph list" where
  "track_features t = concat (map features (lanes t))"

text \<open>
  The run that absorbs a prefix of a list of features, with the number of features
  absorbed; and the snap of \<^verbatim>\<open>determineMajorTick\<close> as a function of the raw
  interval, with the rounded interval it passes through.
\<close>

fun absorb_run :: "run \<Rightarrow> glyph list \<Rightarrow> run \<times> nat" where
  "absorb_run r [] = (r, 0)"
| "absorb_run r (g # gs) =
     (if position g \<le> runEnd r
      then (let (r', n) = absorb_run (r\<lparr> runEnd := max (runEnd r) (getEnd g), label := [] \<rparr>) gs
            in (r', Suc n))
      else (r, 0))"


section \<open>Concrete charts and features\<close>

text \<open>
  A glyph of type \<^verbatim>\<open>gene\<close> on the plus strand, a new chart with its scale set, and
  such a chart (760 pixels wide) with its major tick size set.
\<close>

definition mk_glyph :: "nat \<Rightarrow> real \<Rightarrow> real \<Rightarrow> string \<Rightarrow> glyph" where
  "mk_glyph i pos len nm =
     \<lparr> uid = i, position = pos, length_g = len, strand = ''+'', type_g = ''gene'', name = nm \<rparr>"

definition scaled_chart :: "real \<Rightarrow> real \<Rightarrow> real \<Rightarrow> chart" where
  "scaled_chart w mn mx = (Scribl_init w)\<lparr> scale_min := Fin mn, scale_max := Fin mx \<rparr>"

definition ticked_chart :: "real \<Rightarrow> real \<Rightarrow> real \<Rightarrow> chart" where
  "ticked_chart mn mx major = (scaled_chart 760 mn mx)\<lparr> tick_major_size := Fin major \<rparr>"

section \<open>The lane allocator keeps the gap invariant\<close>



lemma find_lane_Some:
  "find_lane ch f ls j = Some k \<Longrightarrow> j \<le> k \<and> k - j < length ls \<and> lane_accepts ch f (ls ! (k - j))"
proof (induction ls arbitrary: j)
  case Nil
  then show ?case by simp
next
  case (Cons l ls)
  show ?case
  proof (cases "lane_accepts ch f l")
    case True
    with Cons.prems show ?thesis by simp
  next
    case False
    with Cons.prems have "find_lane ch f ls (Suc j) = Some k" by simp
    from Cons.IH[OF this]
    have ih: "Suc j \<le> k" "k - Suc j < length ls" "lane_accepts ch f (ls ! (k - Suc j))"
      by simp_all
    from ih(1) have "k - j = Suc (k - Suc j)" by arith
    with ih show ?thesis by simp
  qed
qed






lemmas addFeature_eval =
  Track_addFeature_def addLane_def Lane_addFeature_def Lane_init_def Track_init_def
  lane_accepts_def pixelsToNts0_def js_sub_def scaled_chart_def Scribl_init_def mk_glyph_def
  getEnd_def



section \<open>The two conversions of the scale\<close>

text \<open>
  With a finite scale, \<^verbatim>\<open>ntsToPixels\<close> after \<^verbatim>\<open>pixelsToNts\<close> divides by the
  width of the domain; the two ratios returned without an argument are inverse to
  each other.
\<close>

lemma ntsToPixels_pixelsToNts:
  assumes "scale_min ch = Fin mn" "scale_max ch = Fin mx" "mn < mx" "0 < width ch"
  shows "ntsToPixels ch (pixelsToNts ch (Fin x)) = Fin (x / (mx - mn))"
  using assms by (simp add: ntsToPixels_def pixelsToNts_def js_sub_def)

lemma ratios_inverse:
  assumes "scale_min ch = Fin mn" "scale_max ch = Fin mx" "mn < mx" "0 < width ch"
  shows "js_mul (ntsToPixels0 ch) (pixelsToNts0 ch) = Fin 1"
  using assms by (simp add: ntsToPixels0_def pixelsToNts0_def js_sub_def)

text \<open>
  Claim C1 says that converting a coordinate of the domain with \<^verbatim>\<open>pixelsToNts\<close> and
  back with \<^verbatim>\<open>ntsToPixels\<close> returns the coordinate. On a chart 512 pixels wide with
  the domain from 0 to 1024 the coordinate 512 comes back as 1/2: \<^verbatim>\<open>ntsToPixels\<close>
  with an argument divides by the pixel width and not by the ratio. Every step of this
  computation is exact in binary floating point as well.
\<close>

theorem round_trip_fails:
  "pixelsToNts (scaled_chart 512 0 1024) (Fin 512) = Fin 256 \<and>
   ntsToPixels (scaled_chart 512 0 1024) (pixelsToNts (scaled_chart 512 0 1024) (Fin 512))
     = Fin (1 / 2)"
  by (simp add: ntsToPixels_def pixelsToNts_def scaled_chart_def Scribl_init_def js_sub_def)

section \<open>Slicing\<close>

lemmas slice_eval =
  slice_def slice_feature_def addTrack_def Scribl_addFeature_def layout_def clone_def
  addFeature_eval

lemma slice_feature_inclusive:
  "slice_feature gf ''inclusive'' from to nl g =
     Inr (if keeps_inclusive from to g then nl\<lparr>features := features nl @ [g]\<rparr> else nl)"
  by (simp add: slice_feature_def keeps_inclusive_def Lane_addFeature_def getEnd_def Let_def)

lemma slice_feature_exclusive:
  "slice_feature gf ''exclusive'' from to nl g =
     Inr (if keeps_exclusive from to g then nl\<lparr>features := features nl @ [g]\<rparr> else nl)"
  by (simp add: slice_feature_def keeps_exclusive_def Lane_addFeature_def getEnd_def Let_def)

text \<open>
  When the test of a mode neither clones nor fails, each loop of \<^verbatim>\<open>slice\<close> is a
  filter: the new lane, track and chart mirror the old ones.
\<close>

lemma slice_features_filter:
  assumes step: "\<And>nl g. slice_feature gf ty from to nl g =
     Inr (if P g then nl\<lparr>features := features nl @ [g]\<rparr> else nl)"
  shows "slice_features gf ty from to nl gs = Inr (nl\<lparr>features := features nl @ filter P gs\<rparr>)"
  by (induction gs arbitrary: nl) (simp_all add: step)

lemma slice_lanes_filter:
  assumes step: "\<And>nl g. slice_feature gf ty from to nl g =
     Inr (if P g then nl\<lparr>features := features nl @ [g]\<rparr> else nl)"
  shows "slice_lanes gf ty from to nt ls =
     Inr (nt\<lparr>lanes := lanes nt @ map (\<lambda>l. \<lparr>features = filter P (features l)\<rparr>) ls\<rparr>)"
  by (induction ls arbitrary: nt)
    (simp_all add: slice_features_filter[where P = P, OF step] addLane_def Lane_init_def)

lemma slice_tracks_filter:
  assumes step: "\<And>nl g. slice_feature gf ty from to nl g =
     Inr (if P g then nl\<lparr>features := features nl @ [g]\<rparr> else nl)"
  shows "slice_tracks gf ty from to nc ts =
     Inr (nc\<lparr>tracks := tracks nc @
        map (\<lambda>t. \<lparr>lanes = map (\<lambda>l. \<lparr>features = filter P (features l)\<rparr>) (lanes t),
                  trackDrawStyle = trackDrawStyle t\<rparr>) ts\<rparr>)"
  by (induction ts arbitrary: nc)
    (simp_all add: slice_lanes_filter[where P = P, OF step] addTrack_def Track_init_def)

lemma slice_layout_filter:
  assumes step: "\<And>nl g. slice_feature gf ty from to nl g =
     Inr (if P g then nl\<lparr>features := features nl @ [g]\<rparr> else nl)"
    and ty: "(case type of None \<Rightarrow> ''inclusive'' | Some s \<Rightarrow> if s = [] then ''inclusive'' else s) = ty"
  shows "\<exists>c. slice gf ch from to type = Inr c \<and>
             layout c = map (map (filter P)) (layout ch)"
  by (simp add: slice_def ty slice_tracks_filter[where P = P, OF step] layout_def
      Scribl_init_def comp_def)

text \<open>
  For a range with \<open>from < to\<close> and a feature of length at least 0, the inclusive test
  is the overlap with the closed range, less the features that start before \<open>from\<close>
  and end exactly at \<open>from\<close> or exactly at \<open>to\<close>. With \<open>to \<le> from\<close> the inclusive
  test keeps what starts before \<open>from\<close> and ends after \<open>to\<close> (and what starts at
  \<open>from = to\<close>), and the exclusive test keeps nothing.
\<close>

lemma keeps_inclusive_overlap:
  assumes "from < to" "0 \<le> length_g g"
  shows "keeps_inclusive from to g \<longleftrightarrow>
     (position g \<le> to \<and> from \<le> getEnd g) \<and>
     \<not> (position g < from \<and> (getEnd g = from \<or> getEnd g = to))"
  using assms by (auto simp: keeps_inclusive_def getEnd_def)

lemma keeps_degenerate:
  "to \<le> from \<Longrightarrow> 0 \<le> length_g g \<Longrightarrow>
     keeps_inclusive from to g = (position g = from \<and> from = to \<or> position g < from \<and> to < getEnd g)"
  "to \<le> from \<Longrightarrow> \<not> keeps_exclusive from to g"
  by (auto simp: keeps_inclusive_def keeps_exclusive_def getEnd_def)

text \<open>
  Claim C3 says that an inclusive slice keeps a feature exactly when the feature
  overlaps the closed range from \<open>from\<close> to \<open>to\<close>. The two examples of the claim hold:
  of the features 150..250 and 300..310 the slice from 100 to 200 keeps the first and
  drops the second. But the feature 50..200, which covers the range from 100 to 200,
  is dropped: it starts before \<open>from\<close> and ends exactly at \<open>to\<close>, and each test of the
  code asks for an end strictly before or strictly after \<open>to\<close>.
\<close>

theorem inclusive_slice_drops_overlap:
  "map_sum id layout
     (slice None (loadFeatures (scaled_chart 760 0 1000) [mk_glyph 1 50 150 ''a''])
        100 200 (Some ''inclusive'')) = Inr [[[]]] \<and>
   map_sum id layout
     (slice None (loadFeatures (scaled_chart 760 0 1000)
         [mk_glyph 1 150 100 ''a'', mk_glyph 2 300 10 ''b''])
        100 200 (Some ''inclusive'')) = Inr [[[mk_glyph 1 150 100 ''a'']]]"
  by (simp add: slice_eval)

text \<open>
  Claim C4 says that a strict slice keeps the features inside the range, clips the
  features that overlap it partly into clones, and drops the others; the slice from
  100 to 150 of the feature 50..250 should be a clone 100..150. The code calls
  \<^verbatim>\<open>Glyph.clone\<close> for it, and \<^verbatim>\<open>clone\<close> raises a ReferenceError: the slice
  returns no layout.
\<close>

theorem strict_slice_fails:
  "slice None (loadFeatures (scaled_chart 760 0 1000) [mk_glyph 1 50 200 ''a''])
     100 150 (Some ''strict'') = Inl ReferenceError"
  by (simp add: slice_eval)

text \<open>
  Claim C8 says that \<^verbatim>\<open>slice\<close> fails with InvalidRange when \<open>from > to\<close> and
  returns an empty layout when \<open>from = to\<close>. The code checks nothing: the slice from
  200 to 100 and the slice from 155 to 155 both return a layout, and both keep the
  feature 150..160.
\<close>

theorem slice_invalid_range_counterexample:
  "map_sum id layout
     (slice None (loadFeatures (scaled_chart 760 0 1000) [mk_glyph 1 150 10 ''a''])
        200 100 None) = Inr [[[mk_glyph 1 150 10 ''a'']]] \<and>
   map_sum id layout
     (slice None (loadFeatures (scaled_chart 760 0 1000) [mk_glyph 1 150 10 ''a''])
        155 155 None) = Inr [[[mk_glyph 1 150 10 ''a'']]]"
  by (simp add: slice_eval)

text \<open>
  Claim C8, amended. \<^verbatim>\<open>slice\<close> makes no check of the range and never fails with
  InvalidRange: for every \<open>from\<close> and \<open>to\<close>, also with \<open>from > to\<close> or \<open>from = to\<close>, a
  slice in the inclusive mode (the default) or the exclusive mode returns a layout
  with the tracks and lanes of the chart, each lane filtered by the test of the mode.
\<close>

theorem slice_has_no_range_check:
  "(\<exists>c. slice gf ch from to None = Inr c \<and>
         layout c = map (map (filter (keeps_inclusive from to))) (layout ch)) \<and>
   (\<exists>c. slice gf ch from to (Some ''inclusive'') = Inr c \<and>
         layout c = map (map (filter (keeps_inclusive from to))) (layout ch)) \<and>
   (\<exists>c. slice gf ch from to (Some ''exclusive'') = Inr c \<and>
         layout c = map (map (filter (keeps_exclusive from to))) (layout ch))"
  using slice_layout_filter[where P = "keeps_inclusive from to" and type = None,
      OF slice_feature_inclusive]
    slice_layout_filter[where P = "keeps_inclusive from to" and type = "Some ''inclusive''",
      OF slice_feature_inclusive]
    slice_layout_filter[where P = "keeps_exclusive from to" and type = "Some ''exclusive''",
      OF slice_feature_exclusive]
  by simp

section \<open>Adding a feature to the chart\<close>

lemma Track_addFeature_places:
  "f \<in> set (track_features (snd (Track_addFeature ch t f)))"
proof (cases "find_lane ch f (lanes t) 0")
  case None
  then show ?thesis
    by (simp add: Track_addFeature_def addLane_def Lane_addFeature_def Lane_init_def
        track_features_def)
next
  case (Some j)
  from find_lane_Some[OF Some] have j: "j < length (lanes t)" by simp
  let ?l = "(lanes t ! j)\<lparr>features := features (lanes t ! j) @ [f]\<rparr>"
  from j have "?l \<in> set ((lanes t)[j := ?l])" by (simp add: set_update_memI)
  moreover have "f \<in> set (features ?l)" by simp
  ultimately have "f \<in> set (concat (map features ((lanes t)[j := ?l])))"
    unfolding set_concat by (metis (no_types, lifting) UN_I image_eqI list.set_map)
  with Some show ?thesis
    by (simp add: Track_addFeature_def Lane_addFeature_def track_features_def)
qed

text \<open>
  Claim C10. \<^verbatim>\<open>Scribl.addFeature\<close> returns the feature it was given. On a chart
  without tracks it creates exactly one track, which holds the feature in its only
  lane. On a chart with tracks the feature goes through \<^verbatim>\<open>Track.addFeature\<close> of the
  first track and the later tracks stay as they are. In both cases the feature is
  among the features of the first track afterwards.
\<close>

theorem chart_addFeature_first_track:
  "fst (Scribl_addFeature ch f) = f \<and>
   (tracks ch = [] \<longrightarrow>
      tracks (snd (Scribl_addFeature ch f)) =
        [\<lparr>lanes = [\<lparr>features = [f]\<rparr>], trackDrawStyle = None\<rparr>]) \<and>
   (tracks ch \<noteq> [] \<longrightarrow>
      tracks (snd (Scribl_addFeature ch f)) =
        snd (Track_addFeature ch (hd (tracks ch)) f) # tl (tracks ch)) \<and>
   f \<in> set (track_features (hd (tracks (snd (Scribl_addFeature ch f)))))"
proof (cases "tracks ch")
  case Nil
  then show ?thesis
    by (simp add: Scribl_addFeature_def addTrack_def Track_init_def Track_addFeature_def
        addLane_def Lane_addFeature_def Lane_init_def track_features_def)
next
  case (Cons t ts)
  have "Scribl_addFeature ch f = (f, ch\<lparr>tracks := snd (Track_addFeature ch t f) # ts\<rparr>)"
    using Cons by (simp add: Scribl_addFeature_def split: prod.splits)
  with Cons Track_addFeature_places[of f ch t] show ?thesis by simp
qed

theorem chart_addFeature_first_track_witness:
  "tracks (scaled_chart 760 0 1000) = [] \<and>
   tracks (snd (Scribl_addFeature (scaled_chart 760 0 1000) (mk_glyph 1 50 150 ''a''))) =
     [\<lparr>lanes = [\<lparr>features = [mk_glyph 1 50 150 ''a'']\<rparr>], trackDrawStyle = None\<rparr>] \<and>
   tracks (snd (addTrack (snd (addTrack (scaled_chart 760 0 1000))))) = [Track_init, Track_init] \<and>
   tracks (snd (Scribl_addFeature (snd (addTrack (snd (addTrack (scaled_chart 760 0 1000)))))
                  (mk_glyph 1 50 150 ''a''))) =
     [\<lparr>lanes = [\<lparr>features = [mk_glyph 1 50 150 ''a'']\<rparr>], trackDrawStyle = None\<rparr>, Track_init]"
proof -
  let ?f = "mk_glyph 1 50 150 ''a''"
  let ?ch0 = "scaled_chart 760 0 1000"
  let ?ch2 = "snd (addTrack (snd (addTrack ?ch0)))"
  have t0: "tracks ?ch0 = []"
    by (simp add: scaled_chart_def Scribl_init_def)
  have t2: "tracks ?ch2 = [Track_init, Track_init]"
    by (simp add: addTrack_def scaled_chart_def Scribl_init_def)
  have first: "snd (Track_addFeature ?ch2 Track_init ?f) =
      \<lparr>lanes = [\<lparr>features = [?f]\<rparr>], trackDrawStyle = None\<rparr>"
    by (simp add: Track_addFeature_def addLane_def Lane_addFeature_def Lane_init_def
        Track_init_def)
  from chart_addFeature_first_track[of ?ch0 ?f] chart_addFeature_first_track[of ?ch2 ?f]
    t0 t2 first
  show ?thesis by simp
qed

section \<open>The collapse pass\<close>

text \<open>
  A run of the spec is the first feature and the features it absorbs; what is left
  starts the next run.
\<close>

lemma merge_runs_absorb:
  "merge_runs r gs = fst (absorb_run r gs) # collapse_runs (drop (snd (absorb_run r gs)) gs)"
  by (induction gs arbitrary: r) (simp_all add: split_beta)

text \<open>
  The inner loop changes nothing but the length and the name of feature \<open>j\<close>, and
  leaves it as the run that absorbs the features from \<open>m\<close> on.
\<close>

lemma collapse_inner_absorb:
  assumes "j < m" "j < length fs"
  shows "\<exists>l n. collapse_inner fs j m =
            (fs[j := (fs ! j)\<lparr>length_g := l, name := n\<rparr>],
             m + snd (absorb_run (run_of (fs ! j)) (drop m fs))) \<and>
          run_of ((fs ! j)\<lparr>length_g := l, name := n\<rparr>) =
            fst (absorb_run (run_of (fs ! j)) (drop m fs))"
  using assms
proof (induction fs j m rule: collapse_inner.induct)
  case (1 feats j m)
  show ?case
  proof (cases "m < length feats")
    case False
    then have "collapse_inner feats j m = (feats, m)"
      by (simp add: collapse_inner.simps[of feats j m])
    moreover from False have "drop m feats = []" by simp
    ultimately show ?thesis
      by (intro exI[of _ "length_g (feats ! j)"] exI[of _ "name (feats ! j)"]) simp
  next
    case m: True
    then have dr: "drop m feats = feats ! m # drop (Suc m) feats"
      by (simp add: Cons_nth_drop_Suc)
    show ?thesis
    proof (cases "position (feats ! m) \<le> getEnd (feats ! j)")
      case False
      with m have "collapse_inner feats j m = (feats, m)"
        by (simp add: collapse_inner.simps[of feats j m])
      moreover from False dr have "absorb_run (run_of (feats ! j)) (drop m feats) = (run_of (feats ! j), 0)"
        by (simp add: run_of_def)
      ultimately show ?thesis
        by (intro exI[of _ "length_g (feats ! j)"] exI[of _ "name (feats ! j)"]) simp
    next
      case True
      let ?cur = "(feats ! j)\<lparr>length_g := max (getEnd (feats ! j)) (getEnd (feats ! m)) - position (feats ! j), name := []\<rparr>"
      let ?fs1 = "feats[j := ?cur]"
      from "1.prems" have j1: "j < Suc m" "j < length ?fs1" by simp_all
      from "1.IH"[OF m True j1] obtain l n where
        ih: "collapse_inner ?fs1 j (Suc m) =
            (?fs1[j := (?fs1 ! j)\<lparr>length_g := l, name := n\<rparr>],
             Suc m + snd (absorb_run (run_of (?fs1 ! j)) (drop (Suc m) ?fs1)))"
          "run_of ((?fs1 ! j)\<lparr>length_g := l, name := n\<rparr>) =
            fst (absorb_run (run_of (?fs1 ! j)) (drop (Suc m) ?fs1))"
        by blast
      from "1.prems" have at: "?fs1 ! j = ?cur" by simp
      from "1.prems" have dr1: "drop (Suc m) ?fs1 = drop (Suc m) feats"
        by (simp add: drop_update_cancel)
      have cur: "run_of ?cur = (run_of (feats ! j))\<lparr>runEnd := max (runEnd (run_of (feats ! j))) (getEnd (feats ! m)), label := []\<rparr>"
        by (simp add: run_of_def getEnd_def)
      have step: "collapse_inner feats j m = collapse_inner ?fs1 j (Suc m)"
        using m True by (simp add: collapse_inner.simps[of feats j m])
      have ab: "absorb_run (run_of (feats ! j)) (drop m feats) =
          (fst (absorb_run (run_of ?cur) (drop (Suc m) feats)),
           Suc (snd (absorb_run (run_of ?cur) (drop (Suc m) feats))))"
        using True by (simp add: dr cur split_beta) (simp add: run_of_def)
      show ?thesis
        using ih by (intro exI[of _ l] exI[of _ n]) (simp add: step at dr1 ab)
    qed
  qed
qed

text \<open>
  The outer loop hands the array back as it received it and draws the runs of the
  spec.
\<close>

lemma collapse_outer_runs:
  "fst (collapse_outer fs j drawn) = fs \<and>
   map run_of (snd (collapse_outer fs j drawn)) = map run_of drawn @ collapse_runs (drop j fs)"
proof (induction fs j drawn rule: collapse_outer.induct)
  case (1 feats j drawn)
  show ?case
  proof (cases "j < length feats")
    case False
    then show ?thesis by (simp add: collapse_outer.simps[of feats j drawn])
  next
    case True
    from collapse_inner_absorb[of j "Suc j" feats] True obtain l n where
      inner: "collapse_inner feats j (Suc j) =
            (feats[j := (feats ! j)\<lparr>length_g := l, name := n\<rparr>],
             Suc j + snd (absorb_run (run_of (feats ! j)) (drop (Suc j) feats)))"
      and run: "run_of ((feats ! j)\<lparr>length_g := l, name := n\<rparr>) =
            fst (absorb_run (run_of (feats ! j)) (drop (Suc j) feats))"
      by auto
    let ?c = "(feats ! j)\<lparr>length_g := l, name := n\<rparr>"
    let ?m = "Suc j + snd (absorb_run (run_of (feats ! j)) (drop (Suc j) feats))"
    have restore: "(feats[j := ?c])[j := (feats[j := ?c] ! j)\<lparr>length_g := length_g (feats ! j), name := name (feats ! j)\<rparr>] = feats"
      using True by simp
    have unfold: "collapse_outer feats j drawn = collapse_outer feats ?m (drawn @ [?c])"
      using True restore by (simp add: collapse_outer.simps[of feats j drawn] inner Let_def)
    from "1.IH"[OF True refl refl inner[symmetric] refl refl] restore True
    have ih: "fst (collapse_outer feats ?m (drawn @ [?c])) = feats \<and>
       map run_of (snd (collapse_outer feats ?m (drawn @ [?c]))) =
         map run_of (drawn @ [?c]) @ collapse_runs (drop ?m feats)"
      by simp
    have "collapse_runs (drop j feats) = merge_runs (run_of (feats ! j)) (drop (Suc j) feats)"
      using True by (simp add: Cons_nth_drop_Suc[symmetric])
    also have "\<dots> = run_of ?c # collapse_runs (drop ?m feats)"
      by (simp add: merge_runs_absorb run add.commute)
    finally show ?thesis using ih unfold by simp
  qed
qed


lemma sort_three_glyphs: "sort_key position [mk_glyph 1 0 10 ''a'', mk_glyph 3 20 5 ''c'', mk_glyph 2 5 10 ''b''] =
   [mk_glyph 1 0 10 ''a'', mk_glyph 2 5 10 ''b'', mk_glyph 3 20 5 ''c'']"
  by (simp add: mk_glyph_def)

text \<open>
  Claim C6. On any array of features the collapse pass draws exactly the runs of the
  spec: a feature that starts at or before the end of the current run is merged into
  it (the end of the run becomes the maximum of both ends and the label is blanked),
  and a feature that starts after it begins a new run. After the pass the array is
  the array before the pass, so every feature has its position, length and name
  back. \<^verbatim>\<open>Track.draw\<close> runs the pass on the features of all lanes sorted by position.
  The features 0..10, 5..15 and 20..25, which \<^verbatim>\<open>Track.addFeature\<close> spreads over two
  lanes, are drawn as the run 0..15 without a label and the run 20..25 labelled
  \<open>c\<close>.
\<close>

theorem collapse_pass:
  "fst (collapse_outer fs 0 []) = fs \<and>
   map run_of (snd (collapse_outer fs 0 [])) = collapse_runs fs \<and>
   fst (draw_collapse t) = sort_key position (track_features t) \<and>
   map run_of (snd (draw_collapse t)) = collapse_runs (sort_key position (track_features t)) \<and>
   lanes (addFeatures (scaled_chart 760 0 1000) Track_init
       [mk_glyph 1 0 10 ''a'', mk_glyph 2 5 10 ''b'', mk_glyph 3 20 5 ''c'']) =
     [\<lparr>features = [mk_glyph 1 0 10 ''a'', mk_glyph 3 20 5 ''c'']\<rparr>,
      \<lparr>features = [mk_glyph 2 5 10 ''b'']\<rparr>] \<and>
   map run_of (snd (draw_collapse (addFeatures (scaled_chart 760 0 1000) Track_init
       [mk_glyph 1 0 10 ''a'', mk_glyph 2 5 10 ''b'', mk_glyph 3 20 5 ''c'']))) =
     [\<lparr>runStart = 0, runEnd = 15, label = []\<rparr>, \<lparr>runStart = 20, runEnd = 25, label = ''c''\<rparr>]"
proof -
  have lanes: "lanes (addFeatures (scaled_chart 760 0 1000) Track_init
       [mk_glyph 1 0 10 ''a'', mk_glyph 2 5 10 ''b'', mk_glyph 3 20 5 ''c'']) =
     [\<lparr>features = [mk_glyph 1 0 10 ''a'', mk_glyph 3 20 5 ''c'']\<rparr>,
      \<lparr>features = [mk_glyph 2 5 10 ''b'']\<rparr>]"
    by (simp add: addFeature_eval)
  have runs: "collapse_runs [mk_glyph 1 0 10 ''a'', mk_glyph 2 5 10 ''b'', mk_glyph 3 20 5 ''c''] =
     [\<lparr>runStart = 0, runEnd = 15, label = []\<rparr>, \<lparr>runStart = 20, runEnd = 25, label = ''c''\<rparr>]"
    by (simp add: run_of_def getEnd_def mk_glyph_def)
  have gen: "fst (collapse_outer fs 0 []) = fs \<and>
     map run_of (snd (collapse_outer fs 0 [])) = collapse_runs fs" for fs
    using collapse_outer_runs[of fs 0 "[]"] by simp
  have track: "fst (draw_collapse t) = sort_key position (track_features t) \<and>
     map run_of (snd (draw_collapse t)) = collapse_runs (sort_key position (track_features t))" for t
    unfolding draw_collapse_def track_features_def by (rule gen)
  have "track_features (addFeatures (scaled_chart 760 0 1000) Track_init
       [mk_glyph 1 0 10 ''a'', mk_glyph 2 5 10 ''b'', mk_glyph 3 20 5 ''c'']) =
     [mk_glyph 1 0 10 ''a'', mk_glyph 3 20 5 ''c'', mk_glyph 2 5 10 ''b'']"
    unfolding track_features_def lanes by simp
  with track[of "addFeatures (scaled_chart 760 0 1000) Track_init
       [mk_glyph 1 0 10 ''a'', mk_glyph 2 5 10 ''b'', mk_glyph 3 20 5 ''c'']"]
  have "map run_of (snd (draw_collapse (addFeatures (scaled_chart 760 0 1000) Track_init
       [mk_glyph 1 0 10 ''a'', mk_glyph 2 5 10 ''b'', mk_glyph 3 20 5 ''c'']))) =
     [\<lparr>runStart = 0, runEnd = 15, label = []\<rparr>, \<lparr>runStart = 20, runEnd = 25, label = ''c''\<rparr>]"
    by (simp only: sort_three_glyphs runs)
  with gen[of fs] track[of t] lanes show ?thesis by blast
qed

section \<open>Making the scale end on major ticks\<close>

text \<open>
  Claim C7 says that the minimum is lowered to the multiple of the major tick size at
  or below it and the maximum raised to the multiple strictly above it. With major
  ticks of 1000 the maximum 10000 stays 10000; with major ticks of 100 the maximum
  1005 is lowered to 1000; with major ticks of 10 the minimum -5 is raised to 0.
\<close>

theorem prettify_domain_counterexample:
  "scale_max (prettifyDomain (ticked_chart 0 10000 1000)) = Fin 10000 \<and>
   scale_max (prettifyDomain (ticked_chart 0 1005 100)) = Fin 1000 \<and>
   scale_min (prettifyDomain (ticked_chart (-5) 100 10)) = Fin 0"
proof -
  have "\<lceil>- (1 / 2 :: real)\<rceil> = 0" by (rule ceiling_unique) simp_all
  then show ?thesis
    by (simp add: prettifyDomain_def ticked_chart_def scaled_chart_def Scribl_init_def js_sub_def
        js_trunc_def)
qed

lemma prettify_values:
  assumes "scale_auto ch" "scale_min ch = Fin a" "scale_max ch = Fin b"
    "tick_major_size ch = Fin m" "0 < m"
  shows "scale_min (prettifyDomain ch) = Fin (of_int (js_trunc (a / m)) * m)"
    and "scale_max (prettifyDomain ch) = Fin (of_int \<lfloor>b / m + 9 / 10\<rfloor> * m)"
proof -
  have "b / m + 4 / 10 + 1 / 2 = b / m + 9 / 10" by simp
  then show "scale_max (prettifyDomain ch) = Fin (of_int \<lfloor>b / m + 9 / 10\<rfloor> * m)"
    using assms by (simp add: prettifyDomain_def add.assoc)
  show "scale_min (prettifyDomain ch) = Fin (of_int (js_trunc (a / m)) * m)"
    using assms by (simp add: prettifyDomain_def js_sub_def mult.commute)
qed

lemma floor_mult_bounds:
  fixes m x :: real
  assumes "0 < m"
  shows "of_int \<lfloor>x\<rfloor> * m \<le> x * m" and "x * m < of_int \<lfloor>x\<rfloor> * m + m"
proof -
  have "of_int \<lfloor>x\<rfloor> \<le> x" by simp
  with assms show "of_int \<lfloor>x\<rfloor> * m \<le> x * m" by (intro mult_right_mono) simp_all
  have "x < of_int \<lfloor>x\<rfloor> + 1" by linarith
  with assms have "x * m < (of_int \<lfloor>x\<rfloor> + 1) * m" by (intro mult_strict_right_mono)
  then show "x * m < of_int \<lfloor>x\<rfloor> * m + m" by (simp add: distrib_right)
qed

text \<open>
  Claim C7, amended. For a positive major tick size \<open>m\<close> both bounds become multiples
  of \<open>m\<close>. A minimum that is not negative becomes the greatest multiple at or below
  it. The maximum \<open>b\<close> becomes the one multiple in the interval from \<open>b - m/10\<close>
  (excluded) to \<open>b + 9m/10\<close> (included): \<open>b\<close> itself when it is a multiple, the
  multiple below \<open>b\<close> when \<open>b\<close> is less than a tenth of a tick above one, and the next
  multiple above \<open>b\<close> otherwise.
\<close>

theorem prettify_domain:
  assumes "scale_auto ch" and "scale_min ch = Fin a" and "scale_max ch = Fin b"
    and "tick_major_size ch = Fin m" and "0 < m"
  shows "\<exists>i k :: int.
     scale_min (prettifyDomain ch) = Fin (of_int i * m) \<and>
     scale_max (prettifyDomain ch) = Fin (of_int k * m) \<and>
     (0 \<le> a \<longrightarrow> of_int i * m \<le> a \<and> a < of_int i * m + m) \<and>
     b - m / 10 < of_int k * m \<and> of_int k * m \<le> b + 9 * m / 10"
proof -
  let ?i = "js_trunc (a / m)" and ?k = "\<lfloor>b / m + 9 / 10\<rfloor>"
  have lo: "of_int ?i * m \<le> a \<and> a < of_int ?i * m + m" if "0 \<le> a"
  proof -
    from that assms(5) have "?i = \<lfloor>a / m\<rfloor>" by (simp add: js_trunc_def)
    moreover from assms(5) have "a / m * m = a" by simp
    ultimately show ?thesis using floor_mult_bounds[OF assms(5), of "a / m"] assms(5) by simp
  qed
  from assms(5) have "(b / m + 9 / 10) * m = b + 9 * m / 10" by (simp add: distrib_right)
  with floor_mult_bounds[OF assms(5), of "b / m + 9 / 10"]
  have hi: "b - m / 10 < of_int ?k * m" "of_int ?k * m \<le> b + 9 * m / 10"
    by simp_all
  from prettify_values[OF assms] lo hi show ?thesis by blast
qed


theorem prettify_domain_witness:
  "scale_min (prettifyDomain (ticked_chart 250 9300 1000)) = Fin 0 \<and>
   scale_max (prettifyDomain (ticked_chart 250 9300 1000)) = Fin 10000"
proof -
  let ?ch = "ticked_chart 250 9300 1000"
  have h: "scale_auto ?ch" "scale_min ?ch = Fin 250" "scale_max ?ch = Fin 9300"
    "tick_major_size ?ch = Fin 1000" "(0::real) < 1000"
    by (simp_all add: ticked_chart_def scaled_chart_def Scribl_init_def)
  from prettify_domain[OF h] obtain i k :: int where
    ik: "scale_min (prettifyDomain ?ch) = Fin (of_int i * 1000)"
      "scale_max (prettifyDomain ?ch) = Fin (of_int k * 1000)"
      "of_int i * 1000 \<le> (250::real)" "(250::real) < of_int i * 1000 + 1000"
      "9300 - 1000 / 10 < (of_int k * 1000 :: real)" "(of_int k * 1000 :: real) \<le> 9300 + 9 * 1000 / 10"
    by auto
  from ik(3,4) have "i = 0" by linarith
  moreover from ik(5,6) have "k = 10" by linarith
  ultimately show ?thesis using ik(1,2) by simp
qed

section \<open>The major tick\<close>






















section \<open>The two label formatters\<close>


















end
